theory Spec2Isabelle
  imports Complex_Main "HOL-Library.Sublist"
begin

section \<open>Conventions\<close>

text \<open>
  The development embeds \<^verbatim>\<open>models.py\<close>, \<^verbatim>\<open>analysis.py\<close> and \<^verbatim>\<open>parser.py\<close> of the
  package \<^verbatim>\<open>espnet_analyzer\<close>.

  \<^item> Python \<^verbatim>\<open>float\<close> values are modelled by \<open>real\<close>: finite values, with rounding, infinities
    and NaN left out. The one place where the code manufactures a NaN from finite data, the mean
    of an empty list, is kept as the value \<open>NaN\<close> of the type \<open>npfloat\<close>.
  \<^item> Python \<^verbatim>\<open>int\<close> is \<open>int\<close>; \<^verbatim>\<open>Optional[float]\<close> is \<open>real option\<close>.
  \<^item> Every exception the embedded code can raise is a constructor of \<open>error\<close>, and a function
    that can raise returns \<open>error + 'a\<close>.
  \<^item> Strings are \<open>char list\<close>; the character classes of the regular expressions are the ASCII
    ones.
\<close>

datatype error = IndexError | TypeError | ValueError | ZeroDivisionError

datatype npfloat = Num real | NaN

section \<open>Data model (models.py)\<close>

record EpochMetrics =
  epoch :: int
  train_generator_loss :: "real option"
  train_mel_loss :: "real option"
  train_kl_loss :: "real option"
  train_dur_loss :: "real option"
  train_adv_loss :: "real option"
  train_feat_match_loss :: "real option"
  train_discriminator_loss :: "real option"
  valid_generator_loss :: "real option"
  valid_mel_loss :: "real option"
  valid_kl_loss :: "real option"
  valid_dur_loss :: "real option"
  valid_adv_loss :: "real option"
  valid_feat_match_loss :: "real option"
  valid_discriminator_loss :: "real option"
  train_time_seconds :: "real option"

text \<open>
  \<^verbatim>\<open>PlateauInfo\<close> declares \<^verbatim>\<open>start_epoch: int\<close>, but a dataclass does not enforce the
  annotation and \<^verbatim>\<open>detect_plateaus\<close> passes the local \<^verbatim>\<open>current_plateau_start\<close>, which may
  be \<^verbatim>\<open>None\<close>; the field is therefore an \<open>int option\<close>.
\<close>

record PlateauInfo =
  start_epoch :: "int option"
  end_epoch :: int
  avg_improvement :: npfloat
  epochs_in_plateau :: int

record AnalysisResult =
  epochs :: "EpochMetrics list"
  plateaus :: "PlateauInfo list"
  suggested_stop_epoch :: "int option"
  total_improvement :: real
  recent_improvement_rate :: npfloat

text \<open>\<^verbatim>\<open>EpochMetrics(epoch=n)\<close>: every optional field defaults to \<^verbatim>\<open>None\<close>.\<close>

definition EpochMetrics_init :: "int \<Rightarrow> EpochMetrics" where
  "EpochMetrics_init n =
     \<lparr>epoch = n,
      train_generator_loss = None, train_mel_loss = None, train_kl_loss = None,
      train_dur_loss = None, train_adv_loss = None, train_feat_match_loss = None,
      train_discriminator_loss = None,
      valid_generator_loss = None, valid_mel_loss = None, valid_kl_loss = None,
      valid_dur_loss = None, valid_adv_loss = None, valid_feat_match_loss = None,
      valid_discriminator_loss = None,
      train_time_seconds = None\<rparr>"

text \<open>
  The \<^verbatim>\<open>metric\<close> argument of the analysis functions is an attribute name handed to
  \<^verbatim>\<open>getattr\<close>. The selector type lists the attributes of \<^verbatim>\<open>EpochMetrics\<close> that are declared
  \<^verbatim>\<open>Optional[float]\<close>.
\<close>

datatype metric =
    Train_generator_loss | Train_mel_loss | Train_kl_loss | Train_dur_loss
  | Train_adv_loss | Train_feat_match_loss | Train_discriminator_loss
  | Valid_generator_loss | Valid_mel_loss | Valid_kl_loss | Valid_dur_loss
  | Valid_adv_loss | Valid_feat_match_loss | Valid_discriminator_loss
  | Train_time_seconds

fun getattr :: "EpochMetrics \<Rightarrow> metric \<Rightarrow> real option" where
  "getattr e Train_generator_loss = train_generator_loss e"
| "getattr e Train_mel_loss = train_mel_loss e"
| "getattr e Train_kl_loss = train_kl_loss e"
| "getattr e Train_dur_loss = train_dur_loss e"
| "getattr e Train_adv_loss = train_adv_loss e"
| "getattr e Train_feat_match_loss = train_feat_match_loss e"
| "getattr e Train_discriminator_loss = train_discriminator_loss e"
| "getattr e Valid_generator_loss = valid_generator_loss e"
| "getattr e Valid_mel_loss = valid_mel_loss e"
| "getattr e Valid_kl_loss = valid_kl_loss e"
| "getattr e Valid_dur_loss = valid_dur_loss e"
| "getattr e Valid_adv_loss = valid_adv_loss e"
| "getattr e Valid_feat_match_loss = valid_feat_match_loss e"
| "getattr e Valid_discriminator_loss = valid_discriminator_loss e"
| "getattr e Train_time_seconds = train_time_seconds e"

section \<open>Arithmetic helpers\<close>

text \<open>Python's \<^verbatim>\<open>a / b\<close> on floats raises \<^verbatim>\<open>ZeroDivisionError\<close> when \<^verbatim>\<open>b\<close> is zero.\<close>

definition truediv :: "real \<Rightarrow> real \<Rightarrow> error + real" where
  "truediv a b = (if b = 0 then Inl ZeroDivisionError else Inr (a / b))"

text \<open>\<^verbatim>\<open>float(np.mean(xs))\<close>: the arithmetic mean; NaN (with a warning, no exception) on \<^verbatim>\<open>[]\<close>.\<close>

definition np_mean :: "real list \<Rightarrow> npfloat" where
  "np_mean xs = (if xs = [] then NaN else Num (sum_list xs / real (length xs)))"

text \<open>Truth value of an \<^verbatim>\<open>Optional[float]\<close>: \<^verbatim>\<open>None\<close> and \<^verbatim>\<open>0.0\<close> are false.\<close>

fun truthy :: "real option \<Rightarrow> bool" where
  "truthy None = False"
| "truthy (Some v) = (v \<noteq> 0)"

section \<open>Plateau detection (analysis.py)\<close>

text \<open>The local variables of \<^verbatim>\<open>detect_plateaus\<close> that the loop updates.\<close>

record scan_state =
  st_plateaus :: "PlateauInfo list"
  current_plateau_start :: "int option"
  consecutive_count :: int
  plateau_improvements :: "real list"

definition scan_init :: scan_state where
  "scan_init = \<lparr>st_plateaus = [], current_plateau_start = None, consecutive_count = 0,
                 plateau_improvements = []\<rparr>"

text \<open>One iteration of \<^verbatim>\<open>for epoch, improvement in improvements\<close>.\<close>

definition scan_step :: "real \<Rightarrow> int \<Rightarrow> scan_state \<Rightarrow> int \<times> real \<Rightarrow> scan_state" where
  "scan_step threshold consecutive_epochs s x =
     (let ep = fst x; improvement = snd x; below_threshold = improvement < threshold in
      if below_threshold then
        (if current_plateau_start s = None
         then s\<lparr>current_plateau_start := Some ep, plateau_improvements := [improvement],
                 consecutive_count := consecutive_count s + 1\<rparr>
         else s\<lparr>plateau_improvements := plateau_improvements s @ [improvement],
                 consecutive_count := consecutive_count s + 1\<rparr>)
      else
        \<lparr>st_plateaus =
           (if consecutive_count s \<ge> consecutive_epochs
            then st_plateaus s @
                 [\<lparr>start_epoch = current_plateau_start s, end_epoch = ep - 1,
                   avg_improvement = np_mean (plateau_improvements s),
                   epochs_in_plateau = consecutive_count s\<rparr>]
            else st_plateaus s),
         current_plateau_start = None, consecutive_count = 0, plateau_improvements = []\<rparr>)"

fun scan_loop :: "real \<Rightarrow> int \<Rightarrow> scan_state \<Rightarrow> (int \<times> real) list \<Rightarrow> scan_state" where
  "scan_loop threshold consecutive_epochs s [] = s"
| "scan_loop threshold consecutive_epochs s (x # xs) =
     scan_loop threshold consecutive_epochs (scan_step threshold consecutive_epochs s x) xs"

text \<open>
  After the loop the trailing run is checked; \<^verbatim>\<open>improvements[-1]\<close> raises \<^verbatim>\<open>IndexError\<close> on
  an empty list. The parameter \<^verbatim>\<open>use_relative\<close> is accepted and never read.
\<close>

definition detect_plateaus ::
  "(int \<times> real) list \<Rightarrow> real \<Rightarrow> int \<Rightarrow> bool \<Rightarrow> error + PlateauInfo list" where
  "detect_plateaus improvements threshold consecutive_epochs use_relative =
     (let s = scan_loop threshold consecutive_epochs scan_init improvements in
      if consecutive_count s \<ge> consecutive_epochs then
        (case improvements of
           [] \<Rightarrow> Inl IndexError
         | _ # _ \<Rightarrow>
             Inr (st_plateaus s @
                  [\<lparr>start_epoch = current_plateau_start s,
                    end_epoch = fst (last improvements),
                    avg_improvement = np_mean (plateau_improvements s),
                    epochs_in_plateau = consecutive_count s\<rparr>]))
      else Inr (st_plateaus s))"

section \<open>Improvement calculation (analysis.py)\<close>

text \<open>
  \<^verbatim>\<open>for i in range(1, len(epochs))\<close> with a body that may raise: the loop runs over the index
  list and stops at the first exception. The indices \<^verbatim>\<open>i - 1\<close> and \<^verbatim>\<open>i\<close> stay below
  \<^verbatim>\<open>len(epochs)\<close>, so the list reads never leave the list.
\<close>

fun for_range :: "('a \<Rightarrow> nat \<Rightarrow> error + 'a) \<Rightarrow> 'a \<Rightarrow> nat list \<Rightarrow> error + 'a" where
  "for_range body acc [] = Inr acc"
| "for_range body acc (i # is) =
     (case body acc i of Inl err \<Rightarrow> Inl err | Inr acc' \<Rightarrow> for_range body acc' is)"

definition improvement_body ::
  "EpochMetrics list \<Rightarrow> metric \<Rightarrow> (int \<times> real) list \<Rightarrow> nat \<Rightarrow> error + (int \<times> real) list" where
  "improvement_body epochs_arg m improvements i =
     (let prev_val = getattr (epochs_arg ! (i - 1)) m; curr_val = getattr (epochs_arg ! i) m in
      case prev_val of
        None \<Rightarrow> Inr improvements
      | Some p \<Rightarrow>
          (case curr_val of
             None \<Rightarrow> Inr improvements
           | Some c \<Rightarrow> Inr (improvements @ [(epoch (epochs_arg ! i), p - c)])))"

definition compute_improvements ::
  "EpochMetrics list \<Rightarrow> metric \<Rightarrow> error + (int \<times> real) list" where
  "compute_improvements epochs_arg m =
     for_range (improvement_body epochs_arg m) [] [1..<length epochs_arg]"

definition relative_improvement_body ::
  "EpochMetrics list \<Rightarrow> metric \<Rightarrow> (int \<times> real) list \<Rightarrow> nat \<Rightarrow> error + (int \<times> real) list" where
  "relative_improvement_body epochs_arg m improvements i =
     (let prev_val = getattr (epochs_arg ! (i - 1)) m; curr_val = getattr (epochs_arg ! i) m in
      case prev_val of
        None \<Rightarrow> Inr improvements
      | Some p \<Rightarrow>
          (case curr_val of
             None \<Rightarrow> Inr improvements
           | Some c \<Rightarrow>
               if p \<noteq> 0 then
                 (case truediv (p - c) p of
                    Inl err \<Rightarrow> Inl err
                  | Inr q \<Rightarrow> Inr (improvements @ [(epoch (epochs_arg ! i), q * 100)]))
               else Inr improvements))"

definition compute_relative_improvements ::
  "EpochMetrics list \<Rightarrow> metric \<Rightarrow> error + (int \<times> real) list" where
  "compute_relative_improvements epochs_arg m =
     for_range (relative_improvement_body epochs_arg m) [] [1..<length epochs_arg]"

section \<open>Stop suggestion and the analysis as a whole (analysis.py)\<close>

text \<open>
  \<^verbatim>\<open>plateau.start_epoch >= min_epochs\<close> raises \<^verbatim>\<open>TypeError\<close> when the start is \<^verbatim>\<open>None\<close>.
\<close>

fun first_plateau_after :: "PlateauInfo list \<Rightarrow> int \<Rightarrow> error + int option" where
  "first_plateau_after [] min_epochs = Inr None"
| "first_plateau_after (plateau # rest) min_epochs =
     (case start_epoch plateau of
        None \<Rightarrow> Inl TypeError
      | Some s \<Rightarrow> if s \<ge> min_epochs then Inr (Some s) else first_plateau_after rest min_epochs)"

text \<open>The arguments \<^verbatim>\<open>epochs\<close> and \<^verbatim>\<open>improvements\<close> are accepted and never read.\<close>

definition suggest_stop_epoch ::
  "EpochMetrics list \<Rightarrow> (int \<times> real) list \<Rightarrow> PlateauInfo list \<Rightarrow> int \<Rightarrow> error + int option" where
  "suggest_stop_epoch epochs_arg improvements plateaus_arg min_epochs =
     (if plateaus_arg = [] then Inr None else first_plateau_after plateaus_arg min_epochs)"

text \<open>The default value of the parameter \<^verbatim>\<open>min_epochs\<close>.\<close>

definition default_min_epochs :: int where
  "default_min_epochs = 50"

text \<open>The block of \<^verbatim>\<open>analyze_training\<close> under the comment "Calculate total improvement".\<close>

definition calc_total_improvement :: "EpochMetrics list \<Rightarrow> metric \<Rightarrow> error + real" where
  "calc_total_improvement epochs_arg m =
     (case epochs_arg of
        [] \<Rightarrow> Inr 0
      | e0 # _ \<Rightarrow>
          (let first_val = getattr e0 m; last_val = getattr (last epochs_arg) m in
           if truthy first_val \<and> truthy last_val then
             (case first_val of
                None \<Rightarrow> Inr 0
              | Some f \<Rightarrow>
                  (case last_val of
                     None \<Rightarrow> Inr 0
                   | Some l \<Rightarrow>
                       (case truediv (f - l) f of
                          Inl err \<Rightarrow> Inl err
                        | Inr q \<Rightarrow> Inr (q * 100))))
           else Inr 0))"

text \<open>The block under "Calculate recent improvement rate (last 20 epochs)".\<close>

definition calc_recent_improvement_rate :: "(int \<times> real) list \<Rightarrow> npfloat" where
  "calc_recent_improvement_rate improvements =
     (if length improvements \<ge> 20
      then np_mean (map snd (drop (length improvements - 20) improvements))
      else if improvements \<noteq> [] then np_mean (map snd improvements)
      else Num 0)"

definition analyze_training ::
  "EpochMetrics list \<Rightarrow> metric \<Rightarrow> real \<Rightarrow> int \<Rightarrow> bool \<Rightarrow> error + AnalysisResult" where
  "analyze_training epochs_arg m threshold consecutive_epochs use_relative =
     (case (if use_relative then compute_relative_improvements epochs_arg m
            else compute_improvements epochs_arg m) of
        Inl err \<Rightarrow> Inl err
      | Inr improvements \<Rightarrow>
     (case detect_plateaus improvements threshold consecutive_epochs use_relative of
        Inl err \<Rightarrow> Inl err
      | Inr plateaus_found \<Rightarrow>
     (case suggest_stop_epoch epochs_arg improvements plateaus_found default_min_epochs of
        Inl err \<Rightarrow> Inl err
      | Inr suggested_stop \<Rightarrow>
     (case calc_total_improvement epochs_arg m of
        Inl err \<Rightarrow> Inl err
      | Inr total_val \<Rightarrow>
          Inr \<lparr>epochs = epochs_arg, plateaus = plateaus_found,
               suggested_stop_epoch = suggested_stop, total_improvement = total_val,
               recent_improvement_rate = calc_recent_improvement_rate improvements\<rparr>))))"

section \<open>Regular expressions and conversions used by the parser (parser.py)\<close>

definition is_digit :: "char \<Rightarrow> bool" where
  "is_digit c = (c \<in> set ''0123456789'')"

text \<open>ASCII white space as \<^verbatim>\<open>\s\<close> sees it: tab to carriage return, the separators
  \<^verbatim>\<open>\x1c\<close> to \<^verbatim>\<open>\x1f\<close>, and the blank.\<close>

definition is_space :: "char \<Rightarrow> bool" where
  "is_space c = (c \<in> set [CHR 0x09, CHR 0x0A, CHR 0x0B, CHR 0x0C, CHR 0x0D,
                           CHR 0x1C, CHR 0x1D, CHR 0x1E, CHR 0x1F, CHR 0x20])"

definition is_word :: "char \<Rightarrow> bool" where
  "is_word c = (c \<in> set ''abcdefghijklmnopqrstuvwxyzABCDEFGHIJKLMNOPQRSTUVWXYZ0123456789_'')"

text \<open>\<^verbatim>\<open>int(group)\<close> on a non-empty run of digits.\<close>

definition int_of_digits :: "string \<Rightarrow> nat" where
  "int_of_digits ds = foldl (\<lambda>n c. 10 * n + (of_char c - 48)) 0 ds"

text \<open>
  \<^verbatim>\<open>float(s)\<close> for a string over the characters the patterns below can capture (digits,
  \<^verbatim>\<open>.\<close>, \<^verbatim>\<open>e\<close>, \<^verbatim>\<open>+\<close>, \<^verbatim>\<open>-\<close>): an optional sign, digits with at most one point and at least
  one digit, and an optional exponent \<^verbatim>\<open>e\<close>, optional sign, digits. Anything else raises
  \<^verbatim>\<open>ValueError\<close>, here \<open>None\<close>.
\<close>

definition py_float :: "string \<Rightarrow> real option" where
  "py_float s =
     (let neg = (case s of [] \<Rightarrow> False | c # _ \<Rightarrow> c = CHR ''-'');
          body = (case s of [] \<Rightarrow> [] | c # cs \<Rightarrow> if c = CHR ''-'' \<or> c = CHR ''+'' then cs else s);
          ip = takeWhile is_digit body;
          r1 = dropWhile is_digit body;
          has_point = (case r1 of [] \<Rightarrow> False | c # _ \<Rightarrow> c = CHR ''.'');
          fp = (if has_point then takeWhile is_digit (tl r1) else []);
          r2 = (if has_point then dropWhile is_digit (tl r1) else r1);
          mant = real (int_of_digits (ip @ fp)) / 10 ^ length fp;
          signed = (if neg then - mant else mant)
      in if ip = [] \<and> fp = [] then None
         else case r2 of
           [] \<Rightarrow> Some signed
         | c # e1 \<Rightarrow>
             if c = CHR ''e'' then
               (let eneg = (case e1 of [] \<Rightarrow> False | d # _ \<Rightarrow> d = CHR ''-'');
                    ed = (case e1 of [] \<Rightarrow> []
                          | d # ds \<Rightarrow> if d = CHR ''-'' \<or> d = CHR ''+'' then ds else e1)
                in if ed \<noteq> [] \<and> list_all is_digit ed
                   then Some (if eneg then signed / 10 ^ int_of_digits ed
                              else signed * 10 ^ int_of_digits ed)
                   else None)
             else None)"

text \<open>
  \<^verbatim>\<open>re.search\<close>: the pattern is tried at every position from the left, the end of the string
  included, and the first position where it matches wins. The argument \<open>m\<close> is the pattern
  anchored at the start of its input; it returns group 1.
\<close>

fun re_search :: "(string \<Rightarrow> 'a option) \<Rightarrow> string \<Rightarrow> 'a option" where
  "re_search m [] = m []"
| "re_search m (c # cs) = (case m (c # cs) of Some g \<Rightarrow> Some g | None \<Rightarrow> re_search m cs)"

text \<open>
  The patterns \<^verbatim>\<open>(\d+)\s*weeks?\<close>, \<^verbatim>\<open>(\d+)\s*days?\<close>, \<^verbatim>\<open>(\d+)\s*hours?\<close>,
  \<^verbatim>\<open>(\d+)\s*minutes?\<close> and \<^verbatim>\<open>([\d.]+)\s*seconds?\<close>, anchored: a greedy run of the class, white
  space, the unit. A shorter run or less white space cannot match, since the character
  that follows would belong to the class or be white space and not the unit's first letter; the
  optional \<^verbatim>\<open>s\<close> does not change group 1.
\<close>

definition match_quantity :: "(char \<Rightarrow> bool) \<Rightarrow> string \<Rightarrow> string \<Rightarrow> string option" where
  "match_quantity cls unit s =
     (let g = takeWhile cls s; rest = dropWhile is_space (dropWhile cls s)
      in if g \<noteq> [] \<and> prefix unit rest then Some g else None)"

definition is_seconds_char :: "char \<Rightarrow> bool" where
  "is_seconds_char c = (is_digit c \<or> c = CHR ''.'')"

text \<open>The pattern \<^verbatim>\<open>(\d+)epoch results:\<close>, anchored.\<close>

definition match_epoch :: "string \<Rightarrow> string option" where
  "match_epoch s =
     (let g = takeWhile is_digit s
      in if g \<noteq> [] \<and> prefix ''epoch results:'' (dropWhile is_digit s) then Some g else None)"

text \<open>The pattern \<^verbatim>\<open>{metric_name}=([\d.e+-]+)\<close>, anchored; the names passed are literal text.\<close>

definition is_metric_char :: "char \<Rightarrow> bool" where
  "is_metric_char c = (is_digit c \<or> c \<in> set ''.e+-'')"

definition match_metric :: "string \<Rightarrow> string \<Rightarrow> string option" where
  "match_metric metric_name s =
     (if prefix (metric_name @ ''='') s
      then (let g = takeWhile is_metric_char (drop (length metric_name + 1) s)
            in if g \<noteq> [] then Some g else None)
      else None)"

text \<open>
  The pattern \<^verbatim>\<open>time=([\d\w\s.]+?)(?:,|$)\<close>, anchored. The group is lazy: it grows one
  character at a time and stops at the first length, at least one, where a comma follows or the
  string ends (\<^verbatim>\<open>$\<close> also matches before a final newline).
\<close>

definition is_time_char :: "char \<Rightarrow> bool" where
  "is_time_char c = (is_digit c \<or> is_word c \<or> is_space c \<or> c = CHR ''.'')"

definition at_boundary :: "string \<Rightarrow> bool" where
  "at_boundary rest =
     (case rest of [] \<Rightarrow> True | c # cs \<Rightarrow> c = CHR '','' \<or> (c = CHR 0x0A \<and> cs = []))"

fun lazy_group :: "string \<Rightarrow> string \<Rightarrow> string option" where
  "lazy_group acc [] = (if acc \<noteq> [] then Some acc else None)"
| "lazy_group acc (c # cs) =
     (if acc \<noteq> [] \<and> at_boundary (c # cs) then Some acc
      else if is_time_char c then lazy_group (acc @ [c]) cs
      else None)"

definition match_time :: "string \<Rightarrow> string option" where
  "match_time s = (if prefix ''time='' s then lazy_group [] (drop 5 s) else None)"

text \<open>\<^verbatim>\<open>sub in s\<close> and \<^verbatim>\<open>s.index(sub)\<close>: the first position where \<open>sub\<close> occurs.\<close>

fun str_index :: "string \<Rightarrow> string \<Rightarrow> nat option" where
  "str_index sub [] = (if sub = [] then Some 0 else None)"
| "str_index sub (c # cs) =
     (if prefix sub (c # cs) then Some 0 else map_option Suc (str_index sub cs))"

section \<open>The log parser (parser.py)\<close>

text \<open>
  \<^verbatim>\<open>parse_time_string\<close>. The integer components cannot fail; \<^verbatim>\<open>float(seconds_match.group(1))\<close>
  is not guarded and raises \<^verbatim>\<open>ValueError\<close> on a group such as \<^verbatim>\<open>1.2.3\<close>.
\<close>

definition parse_time_string :: "string \<Rightarrow> error + real" where
  "parse_time_string time_str =
     (let t0 = (0 :: real);
          t1 = (case re_search (match_quantity is_digit ''week'') time_str of
                  None \<Rightarrow> t0 | Some g \<Rightarrow> t0 + real (int_of_digits g * 7 * 24 * 3600));
          t2 = (case re_search (match_quantity is_digit ''day'') time_str of
                  None \<Rightarrow> t1 | Some g \<Rightarrow> t1 + real (int_of_digits g * 24 * 3600));
          t3 = (case re_search (match_quantity is_digit ''hour'') time_str of
                  None \<Rightarrow> t2 | Some g \<Rightarrow> t2 + real (int_of_digits g * 3600));
          t4 = (case re_search (match_quantity is_digit ''minute'') time_str of
                  None \<Rightarrow> t3 | Some g \<Rightarrow> t3 + real (int_of_digits g * 60))
      in case re_search (match_quantity is_seconds_char ''second'') time_str of
           None \<Rightarrow> Inr t4
         | Some g \<Rightarrow> (case py_float g of None \<Rightarrow> Inl ValueError | Some v \<Rightarrow> Inr (t4 + v)))"

text \<open>\<^verbatim>\<open>extract_metric\<close>: a \<^verbatim>\<open>ValueError\<close> of \<^verbatim>\<open>float\<close> is caught and turned into \<^verbatim>\<open>None\<close>.\<close>

definition extract_metric :: "string \<Rightarrow> string \<Rightarrow> real option" where
  "extract_metric txt metric_name =
     (case re_search (match_metric metric_name) txt of
        None \<Rightarrow> None
      | Some g \<Rightarrow> py_float g)"

text \<open>The split of a line into \<^verbatim>\<open>train_section\<close> and \<^verbatim>\<open>valid_section\<close>.\<close>

definition split_sections :: "string \<Rightarrow> string \<times> string" where
  "split_sections line =
     (case str_index ''[train]'' line of
        None \<Rightarrow> ([], [])
      | Some train_start \<Rightarrow>
          (let train_section = drop train_start line
           in case str_index ''[valid]'' train_section of
                None \<Rightarrow> (train_section, [])
              | Some valid_start \<Rightarrow>
                  (take valid_start train_section, drop valid_start train_section)))"

text \<open>
  The body of \<^verbatim>\<open>for line in f\<close>: \<open>Inr None\<close> is \<^verbatim>\<open>continue\<close>, \<open>Inr (Some metrics)\<close> the
  record appended, \<open>Inl\<close> an exception leaving the loop.
\<close>

definition parse_line :: "string \<Rightarrow> error + EpochMetrics option" where
  "parse_line line =
     (case re_search match_epoch line of
        None \<Rightarrow> Inr None
      | Some g \<Rightarrow>
          (let epoch_num = int (int_of_digits g);
               train_section = fst (split_sections line);
               valid_section = snd (split_sections line);
               metrics =
                 \<lparr>epoch = epoch_num,
                  train_generator_loss = extract_metric train_section ''generator_loss'',
                  train_mel_loss = extract_metric train_section ''generator_mel_loss'',
                  train_kl_loss = extract_metric train_section ''generator_kl_loss'',
                  train_dur_loss = extract_metric train_section ''generator_dur_loss'',
                  train_adv_loss = extract_metric train_section ''generator_adv_loss'',
                  train_feat_match_loss =
                    extract_metric train_section ''generator_feat_match_loss'',
                  train_discriminator_loss =
                    extract_metric train_section ''discriminator_loss'',
                  valid_generator_loss = extract_metric valid_section ''generator_loss'',
                  valid_mel_loss = extract_metric valid_section ''generator_mel_loss'',
                  valid_kl_loss = extract_metric valid_section ''generator_kl_loss'',
                  valid_dur_loss = extract_metric valid_section ''generator_dur_loss'',
                  valid_adv_loss = extract_metric valid_section ''generator_adv_loss'',
                  valid_feat_match_loss =
                    extract_metric valid_section ''generator_feat_match_loss'',
                  valid_discriminator_loss =
                    extract_metric valid_section ''discriminator_loss'',
                  train_time_seconds = None\<rparr>
           in case re_search match_time train_section of
                None \<Rightarrow> Inr (Some metrics)
              | Some tg \<Rightarrow>
                  (case parse_time_string tg of
                     Inl err \<Rightarrow> Inl err
                   | Inr secs \<Rightarrow> Inr (Some (metrics\<lparr>train_time_seconds := Some secs\<rparr>)))))"

fun parse_lines :: "EpochMetrics list \<Rightarrow> string list \<Rightarrow> error + EpochMetrics list" where
  "parse_lines acc [] = Inr acc"
| "parse_lines acc (line # rest) =
     (case parse_line line of
        Inl err \<Rightarrow> Inl err
      | Inr None \<Rightarrow> parse_lines acc rest
      | Inr (Some metrics) \<Rightarrow> parse_lines (acc @ [metrics]) rest)"

text \<open>
  \<^verbatim>\<open>parse_log_file\<close> on the lines of the opened file; \<^verbatim>\<open>sorted(..., key=...)\<close> is stable, as
  \<open>sort_key\<close> is.
\<close>

definition parse_log_file :: "string list \<Rightarrow> error + EpochMetrics list" where
  "parse_log_file file_lines =
     (case parse_lines [] file_lines of
        Inl err \<Rightarrow> Inl err
      | Inr found \<Rightarrow> Inr (sort_key epoch found))"

section \<open>Predicates used in the proofs\<close>

text \<open>The run state right after a reset: no run is open.\<close>

definition run_reset :: "scan_state \<Rightarrow> bool" where
  "run_reset s =
     (current_plateau_start s = None \<and> consecutive_count s = 0 \<and> plateau_improvements s = [])"

text \<open>A descriptor whose start is set and does not lie after its end.\<close>

definition well_bounded :: "PlateauInfo \<Rightarrow> bool" where
  "well_bounded p = (case start_epoch p of None \<Rightarrow> False | Some a \<Rightarrow> a \<le> end_epoch p)"

text \<open>
  Loop invariant for increasing epochs, \<open>lb\<close> being the epoch processed last: the descriptors
  emitted so far are well bounded, an open run started at or before \<open>lb\<close>, and no run is open
  exactly when the counter is zero.
\<close>

definition scan_inv :: "int \<Rightarrow> scan_state \<Rightarrow> bool" where
  "scan_inv lb s =
     (list_all well_bounded (st_plateaus s) \<and>
      (case current_plateau_start s of None \<Rightarrow> consecutive_count s = 0 | Some a \<Rightarrow> a \<le> lb))"

text \<open>Loop invariant for any epochs: a counted run has a start.\<close>

definition start_known :: "scan_state \<Rightarrow> bool" where
  "start_known s =
     (list_all (\<lambda>p. start_epoch p \<noteq> None) (st_plateaus s) \<and>
      (case current_plateau_start s of None \<Rightarrow> consecutive_count s = 0 | Some a \<Rightarrow> True))"

section \<open>The plateau scan\<close>

subsection \<open>Shape of the scan\<close>

lemma scan_loop_append:
  "scan_loop t c s (xs @ ys) = scan_loop t c (scan_loop t c s xs) ys"
  by (induction xs arbitrary: s) simp_all

lemma scan_loop_snoc: "scan_loop t c s (xs @ [x]) = scan_step t c (scan_loop t c s xs) x"
  by (simp add: scan_loop_append)

lemma run_reset_init: "run_reset scan_init"
  by (simp add: run_reset_def scan_init_def)

lemma scan_step_above: "\<not> snd x < t \<Longrightarrow> run_reset (scan_step t c s x)"
  by (simp add: scan_step_def run_reset_def Let_def)

lemma scan_loop_reset:
  "run_reset s \<Longrightarrow> pre = [] \<or> \<not> snd (last pre) < t \<Longrightarrow> run_reset (scan_loop t c s pre)"
proof (cases pre rule: rev_cases)
  case Nil
  then show "run_reset s \<Longrightarrow> ?thesis" by simp
next
  case (snoc ys y)
  assume "pre = [] \<or> \<not> snd (last pre) < t"
  with snoc have "\<not> snd y < t" by simp
  then show ?thesis unfolding snoc scan_loop_snoc by (rule scan_step_above)
qed

lemma scan_loop_open_run:
  "\<forall>x \<in> set run. snd x < t \<Longrightarrow> current_plateau_start s = Some a \<Longrightarrow>
   scan_loop t c s run =
     s\<lparr>plateau_improvements := plateau_improvements s @ map snd run,
       consecutive_count := consecutive_count s + int (length run)\<rparr>"
proof (induction run arbitrary: s)
  case Nil
  then show ?case by simp
next
  case (Cons x xs)
  have st: "scan_step t c s x =
      s\<lparr>plateau_improvements := plateau_improvements s @ [snd x],
        consecutive_count := consecutive_count s + 1\<rparr>"
    using Cons.prems by (simp add: scan_step_def Let_def)
  show ?case using Cons.prems Cons.IH[of "scan_step t c s x"] by (simp add: st)
qed

lemma scan_loop_run:
  assumes "run \<noteq> []" "\<forall>x \<in> set run. snd x < t" "run_reset s"
  shows "scan_loop t c s run =
     s\<lparr>current_plateau_start := Some (fst (hd run)),
       plateau_improvements := map snd run,
       consecutive_count := int (length run)\<rparr>"
proof -
  obtain x xs where r: "run = x # xs" using assms(1) by (cases run) auto
  have st: "scan_step t c s x =
      s\<lparr>current_plateau_start := Some (fst x), plateau_improvements := [snd x],
        consecutive_count := 1\<rparr>"
    using assms r by (simp add: scan_step_def Let_def run_reset_def)
  show ?thesis using assms(2) unfolding r
    by (simp add: st scan_loop_open_run[where a="fst x"])
qed

lemma np_mean_run:
  "run \<noteq> [] \<Longrightarrow> np_mean (map snd run) = Num (sum_list (map snd run) / real (length run))"
  by (simp add: np_mean_def)

lemma scan_loop_closed_run:
  assumes "run_reset s" "run \<noteq> []" "\<forall>x \<in> set run. snd x < t" "\<not> d < t"
  shows "scan_loop t c s (run @ [(e, d)]) =
     \<lparr>st_plateaus = st_plateaus s @
        (if c \<le> int (length run)
         then [\<lparr>start_epoch = Some (fst (hd run)), end_epoch = e - 1,
                avg_improvement = Num (sum_list (map snd run) / real (length run)),
                epochs_in_plateau = int (length run)\<rparr>]
         else []),
      current_plateau_start = None, consecutive_count = 0, plateau_improvements = []\<rparr>"
  using assms(2,4)
  by (simp add: scan_loop_snoc scan_loop_run[OF assms(2,3,1)] scan_step_def np_mean_run)

lemma detect_plateaus_empty:
  "detect_plateaus [] threshold consecutive_epochs use_relative =
     (if consecutive_epochs \<le> 0 then Inl IndexError else Inr [])"
  by (simp add: detect_plateaus_def scan_init_def)

lemma detect_plateaus_nonempty:
  "xs \<noteq> [] \<Longrightarrow>
   detect_plateaus xs t c r =
     Inr (st_plateaus (scan_loop t c scan_init xs) @
          (if c \<le> consecutive_count (scan_loop t c scan_init xs)
           then [\<lparr>start_epoch = current_plateau_start (scan_loop t c scan_init xs),
                  end_epoch = fst (last xs),
                  avg_improvement = np_mean (plateau_improvements (scan_loop t c scan_init xs)),
                  epochs_in_plateau = consecutive_count (scan_loop t c scan_init xs)\<rparr>]
           else []))"
  by (cases xs) (simp_all add: detect_plateaus_def Let_def del: scan_loop.simps)

lemma detect_plateaus_returns:
  "1 \<le> c \<or> xs \<noteq> [] \<Longrightarrow> \<exists>ps. detect_plateaus xs t c r = Inr ps"
  by (cases xs) (auto simp add: detect_plateaus_def Let_def scan_init_def)

subsection \<open>Plateau detection on an empty delta sequence\<close>

text \<open>
  Claim C3. On an empty delta sequence \<^verbatim>\<open>detect_plateaus\<close> is claimed to return the empty list
  for every value of \<^verbatim>\<open>consecutive_epochs\<close>. With \<^verbatim>\<open>consecutive_epochs = 0\<close> the trailing check
  \<^verbatim>\<open>consecutive_count >= consecutive_epochs\<close> is \<^verbatim>\<open>0 >= 0\<close>, and the code evaluates
  \<^verbatim>\<open>improvements[-1]\<close> on the empty list: it raises \<^verbatim>\<open>IndexError\<close>.
\<close>

theorem detect_plateaus_empty_zero_run_length:
  "detect_plateaus [] (1 / 100) 0 False = Inl IndexError"
  by (simp add: detect_plateaus_def scan_init_def)

subsection \<open>A run closed by a delta at or above the threshold\<close>

text \<open>
  Claim C4. A delta extends the run exactly when it is strictly below the threshold, any other
  delta (one equal to the threshold included) sets the counter back to zero. Let the deltas be
  \<open>pre\<close>, then a non-empty run of deltas below the threshold, then a delta \<open>d\<close> at or above it
  at epoch \<open>e\<close>, where \<open>pre\<close> is empty or ends at or above the threshold (so that the run is
  maximal). After \<open>(e, d)\<close> the scan has added to the descriptors of \<open>pre\<close> one descriptor
  for the run, from its first epoch to \<open>e - 1\<close>, with the mean of its deltas and its length,
  if and only if the length is at least \<open>consecutive_epochs\<close>; the run state is reset in both
  cases. Twelve deltas below the threshold followed by one above it, with
  \<open>consecutive_epochs = 10\<close>, give exactly one descriptor, of run length 12.
\<close>

theorem detect_plateaus_closes_run:
  assumes "pre = [] \<or> \<not> snd (last pre) < threshold"
    and "run \<noteq> []" and "\<forall>x \<in> set run. snd x < threshold" and "\<not> d < threshold"
  shows "consecutive_count (scan_step threshold c s (e', d')) =
           (if d' < threshold then consecutive_count s + 1 else 0)
       \<and> scan_loop threshold c scan_init (pre @ run @ [(e, d)]) =
           \<lparr>st_plateaus = st_plateaus (scan_loop threshold c scan_init pre) @
              (if c \<le> int (length run)
               then [\<lparr>start_epoch = Some (fst (hd run)), end_epoch = e - 1,
                      avg_improvement = Num (sum_list (map snd run) / real (length run)),
                      epochs_in_plateau = int (length run)\<rparr>]
               else []),
            current_plateau_start = None, consecutive_count = 0, plateau_improvements = []\<rparr>
       \<and> (pre = [] \<and> length run = 12 \<longrightarrow>
            detect_plateaus (run @ [(e, d)]) threshold 10 use_relative =
              Inr [\<lparr>start_epoch = Some (fst (hd run)), end_epoch = e - 1,
                     avg_improvement = Num (sum_list (map snd run) / 12),
                     epochs_in_plateau = 12\<rparr>])"
proof (intro conjI impI)
  show "consecutive_count (scan_step threshold c s (e', d')) =
           (if d' < threshold then consecutive_count s + 1 else 0)"
    by (simp add: scan_step_def)
next
  have r: "run_reset (scan_loop threshold c scan_init pre)"
    using assms(1) by (rule scan_loop_reset[OF run_reset_init])
  show "scan_loop threshold c scan_init (pre @ run @ [(e, d)]) =
           \<lparr>st_plateaus = st_plateaus (scan_loop threshold c scan_init pre) @
              (if c \<le> int (length run)
               then [\<lparr>start_epoch = Some (fst (hd run)), end_epoch = e - 1,
                      avg_improvement = Num (sum_list (map snd run) / real (length run)),
                      epochs_in_plateau = int (length run)\<rparr>]
               else []),
            current_plateau_start = None, consecutive_count = 0, plateau_improvements = []\<rparr>"
    unfolding scan_loop_append[of _ _ _ pre]
    by (rule scan_loop_closed_run[OF r assms(2,3,4)])
next
  assume a: "pre = [] \<and> length run = 12"
  have "scan_loop threshold 10 scan_init (run @ [(e, d)]) =
     \<lparr>st_plateaus = [\<lparr>start_epoch = Some (fst (hd run)), end_epoch = e - 1,
                avg_improvement = Num (sum_list (map snd run) / 12),
                epochs_in_plateau = 12\<rparr>],
      current_plateau_start = None, consecutive_count = 0, plateau_improvements = []\<rparr>"
    using a scan_loop_closed_run[OF run_reset_init assms(2,3,4), of 10 e]
    by (simp add: scan_init_def)
  then show "detect_plateaus (run @ [(e, d)]) threshold 10 use_relative =
              Inr [\<lparr>start_epoch = Some (fst (hd run)), end_epoch = e - 1,
                     avg_improvement = Num (sum_list (map snd run) / 12),
                     epochs_in_plateau = 12\<rparr>]"
    by (simp add: detect_plateaus_def)
qed

text \<open>
  The theorem at twelve deltas of 0 for the epochs 1 to 12 and a delta of 1 at epoch 13, with
  threshold 0.1; the step shown is a delta equal to the threshold.
\<close>

theorem detect_plateaus_closes_run_witness:
  "consecutive_count (scan_step (1 / 10) 10 scan_init (13, 1 / 10)) = 0
   \<and> detect_plateaus
       ([(1, 0), (2, 0), (3, 0), (4, 0), (5, 0), (6, 0), (7, 0), (8, 0), (9, 0), (10, 0),
         (11, 0), (12, 0)] @ [(13, 1)]) (1 / 10) 10 True =
     Inr [\<lparr>start_epoch = Some 1, end_epoch = 12, avg_improvement = Num 0,
            epochs_in_plateau = 12\<rparr>]"
  using detect_plateaus_closes_run
    [where pre = "[]" and threshold = "1 / 10" and d = 1 and e = 13 and c = 10
       and s = scan_init and e' = 13 and d' = "1 / 10" and use_relative = True
       and run = "[(1, 0), (2, 0), (3, 0), (4, 0), (5, 0), (6, 0), (7, 0), (8, 0), (9, 0),
                   (10, 0), (11, 0), (12, 0)]"]
  by simp

subsection \<open>A run still open at the end of the sequence\<close>

text \<open>
  Claim C5. Let the deltas be \<open>pre\<close> followed by a non-empty run of deltas below the threshold
  that reaches the end of the sequence, where \<open>pre\<close> is empty or ends at or above the
  threshold. Then \<^verbatim>\<open>detect_plateaus\<close> returns the descriptors of \<open>pre\<close> followed by one
  descriptor for the run, ending at the last epoch of the sequence, if and only if the length of
  the run is at least \<open>consecutive_epochs\<close>. Deltas below the threshold for the epochs 91 to
  100, with \<open>consecutive_epochs = 10\<close>, give exactly the descriptor from 91 to 100.
\<close>

theorem detect_plateaus_trailing_run:
  assumes "pre = [] \<or> \<not> snd (last pre) < threshold"
    and "run \<noteq> []" and "\<forall>x \<in> set run. snd x < threshold"
  shows "detect_plateaus (pre @ run) threshold c use_relative =
           Inr (st_plateaus (scan_loop threshold c scan_init pre) @
              (if c \<le> int (length run)
               then [\<lparr>start_epoch = Some (fst (hd run)), end_epoch = fst (last run),
                      avg_improvement = Num (sum_list (map snd run) / real (length run)),
                      epochs_in_plateau = int (length run)\<rparr>]
               else []))
       \<and> (length ds = 10 \<and> (\<forall>v \<in> set ds. v < threshold) \<longrightarrow>
            detect_plateaus (zip [91..100] ds) threshold 10 use_relative =
              Inr [\<lparr>start_epoch = Some 91, end_epoch = 100,
                     avg_improvement = Num (sum_list ds / 10),
                     epochs_in_plateau = 10\<rparr>])"
proof (intro conjI impI)
  have r: "run_reset (scan_loop threshold c scan_init pre)"
    using assms(1) by (rule scan_loop_reset[OF run_reset_init])
  have l: "scan_loop threshold c scan_init (pre @ run) =
     (scan_loop threshold c scan_init pre)
       \<lparr>current_plateau_start := Some (fst (hd run)),
        plateau_improvements := map snd run,
        consecutive_count := int (length run)\<rparr>"
    unfolding scan_loop_append by (rule scan_loop_run[OF assms(2,3) r])
  show "detect_plateaus (pre @ run) threshold c use_relative =
           Inr (st_plateaus (scan_loop threshold c scan_init pre) @
              (if c \<le> int (length run)
               then [\<lparr>start_epoch = Some (fst (hd run)), end_epoch = fst (last run),
                      avg_improvement = Num (sum_list (map snd run) / real (length run)),
                      epochs_in_plateau = int (length run)\<rparr>]
               else []))"
    using assms(2) by (simp add: detect_plateaus_nonempty l np_mean_run)
next
  assume a: "length ds = 10 \<and> (\<forall>v \<in> set ds. v < threshold)"
  let ?run = "zip [91..100] ds"
  have len: "length ?run = 10" using a by simp
  have ne: "?run \<noteq> []" using len by auto
  have sn: "map snd ?run = ds" using a by simp
  have below: "\<forall>x \<in> set ?run. snd x < threshold"
    using a by (auto dest: set_zip_rightD)
  have h: "fst (hd ?run) = 91" using ne a by (cases ds) (simp_all add: upto.simps)
  have dne: "ds \<noteq> []" using a by auto
  have "last ?run = (last [91..100], last ds)"
    by (rule last_zip) (use a dne in simp_all)
  then have la: "fst (last ?run) = 100" by (simp add: upto.simps)
  have l: "scan_loop threshold 10 scan_init ?run =
     scan_init\<lparr>current_plateau_start := Some 91, plateau_improvements := ds,
        consecutive_count := 10\<rparr>"
    using scan_loop_run[OF ne below run_reset_init, of 10] unfolding h sn len by simp
  show "detect_plateaus ?run threshold 10 use_relative =
              Inr [\<lparr>start_epoch = Some 91, end_epoch = 100,
                     avg_improvement = Num (sum_list ds / 10),
                     epochs_in_plateau = 10\<rparr>]"
    unfolding detect_plateaus_nonempty[OF ne] l la using a
    by (auto simp add: np_mean_def scan_init_def)
qed

text \<open>
  The theorem at a delta of 1 at epoch 90 followed by deltas of 0 at the epochs 91 and 92, with
  \<open>consecutive_epochs = 2\<close>, and at ten deltas of 0 for the epochs 91 to 100.
\<close>

theorem detect_plateaus_trailing_run_witness:
  "detect_plateaus ([(90, 1)] @ [(91, 0), (92, 0)]) (1 / 10) 2 True =
     Inr [\<lparr>start_epoch = Some 91, end_epoch = 92, avg_improvement = Num 0,
            epochs_in_plateau = 2\<rparr>]
   \<and> detect_plateaus (zip [91..100] [0, 0, 0, 0, 0, 0, 0, 0, 0, 0]) (1 / 10) 10 True =
     Inr [\<lparr>start_epoch = Some 91, end_epoch = 100, avg_improvement = Num 0,
            epochs_in_plateau = 10\<rparr>]"
  using detect_plateaus_trailing_run
    [where pre = "[(90, 1)]" and threshold = "1 / 10" and c = 2 and use_relative = True
       and run = "[(91, 0), (92, 0)]" and ds = "[0, 0, 0, 0, 0, 0, 0, 0, 0, 0]"]
  by (simp add: scan_step_def scan_init_def)

subsection \<open>Bounds of the descriptors\<close>

lemma scan_step_st_plateaus:
  "p \<in> set (st_plateaus (scan_step t c s x)) \<Longrightarrow>
   p \<in> set (st_plateaus s) \<or>
   (\<not> snd x < t \<and> c \<le> consecutive_count s \<and>
    p = \<lparr>start_epoch = current_plateau_start s, end_epoch = fst x - 1,
          avg_improvement = np_mean (plateau_improvements s),
          epochs_in_plateau = consecutive_count s\<rparr>)"
  by (auto simp add: scan_step_def Let_def split: if_splits)

lemma scan_loop_run_length:
  "\<forall>p \<in> set (st_plateaus s). c \<le> epochs_in_plateau p \<Longrightarrow>
   \<forall>p \<in> set (st_plateaus (scan_loop t c s xs)). c \<le> epochs_in_plateau p"
proof (induction xs arbitrary: s)
  case Nil
  then show ?case by simp
next
  case (Cons x xs)
  have "\<forall>p \<in> set (st_plateaus (scan_step t c s x)). c \<le> epochs_in_plateau p"
    using Cons.prems by (auto dest!: scan_step_st_plateaus)
  then show ?case using Cons.IH by simp
qed

lemma scan_step_inv:
  assumes "1 \<le> c" "scan_inv lb s" "lb < fst x"
  shows "scan_inv (fst x) (scan_step t c s x)"
  using assms
  by (auto simp add: scan_inv_def scan_step_def Let_def well_bounded_def split: option.splits)

lemma scan_loop_inv:
  assumes "1 \<le> c"
  shows "scan_inv lb s \<Longrightarrow> sorted_wrt (<) (lb # map fst xs) \<Longrightarrow>
         scan_inv (last (lb # map fst xs)) (scan_loop t c s xs)"
proof (induction xs arbitrary: s lb)
  case Nil
  then show ?case by simp
next
  case (Cons x xs)
  have "scan_inv (fst x) (scan_step t c s x)"
    using assms Cons.prems by (intro scan_step_inv) auto
  moreover have "sorted_wrt (<) (fst x # map fst xs)" using Cons.prems(2) by simp
  ultimately have "scan_inv (last (fst x # map fst xs)) (scan_loop t c (scan_step t c s x) xs)"
    by (rule Cons.IH)
  then show ?case by simp
qed

text \<open>
  Claim C6 says that every descriptor produced has a run length of at least
  \<open>consecutive_epochs\<close> and an end not before its start. The end of a closed run is computed
  as the closing epoch minus one, so the second half needs increasing epochs: for the deltas
  \<open>(2, 0), (2, 1)\<close> (a log that reports epoch 2 twice), threshold 0.5 and
  \<open>consecutive_epochs = 1\<close>, the descriptor runs from 2 to 1. It also needs a run length of at
  least one: with \<open>consecutive_epochs = 0\<close> the single delta \<open>(1, 1)\<close> gives two descriptors
  of length 0 that have no start epoch at all.
\<close>

theorem detect_plateaus_descriptor_counterexample:
  "detect_plateaus [(2, 0), (2, 1)] (1 / 2) 1 False =
     Inr [\<lparr>start_epoch = Some 2, end_epoch = 1, avg_improvement = Num 0,
            epochs_in_plateau = 1\<rparr>]
   \<and> \<not> (2 :: int) \<le> 1
   \<and> detect_plateaus [(1, 1)] (1 / 2) 0 False =
     Inr [\<lparr>start_epoch = None, end_epoch = 0, avg_improvement = NaN, epochs_in_plateau = 0\<rparr>,
          \<lparr>start_epoch = None, end_epoch = 1, avg_improvement = NaN, epochs_in_plateau = 0\<rparr>]"
  by (simp add: detect_plateaus_def scan_step_def scan_init_def np_mean_def)

text \<open>
  Claim C6, amended. \<^verbatim>\<open>detect_plateaus\<close> returns whenever \<open>consecutive_epochs \<ge> 1\<close> or the
  sequence is not empty, and every descriptor it returns has a run length of at least
  \<open>consecutive_epochs\<close>. If moreover \<open>consecutive_epochs \<ge> 1\<close> and the epochs of the delta
  sequence are strictly increasing, the descriptor has a start epoch and its end is not before
  its start.
\<close>

theorem detect_plateaus_descriptor_invariant:
  "(1 \<le> c \<or> improvements \<noteq> [] \<longrightarrow>
      (\<exists>qs. detect_plateaus improvements threshold c use_relative = Inr qs))
   \<and> (detect_plateaus improvements threshold c use_relative = Inr ps \<and> p \<in> set ps \<longrightarrow>
        c \<le> epochs_in_plateau p \<and>
        (1 \<le> c \<and> sorted_wrt (<) (map fst improvements) \<longrightarrow>
           (\<exists>a. start_epoch p = Some a \<and> a \<le> end_epoch p)))"
proof (intro conjI impI)
  assume "1 \<le> c \<or> improvements \<noteq> []"
  then show "\<exists>qs. detect_plateaus improvements threshold c use_relative = Inr qs"
    by (rule detect_plateaus_returns)
next
  assume a: "detect_plateaus improvements threshold c use_relative = Inr ps \<and> p \<in> set ps"
  show "c \<le> epochs_in_plateau p"
  proof (cases improvements)
    case Nil
    then show ?thesis using a by (auto simp add: detect_plateaus_empty split: if_splits)
  next
    case (Cons x xs)
    let ?s = "scan_loop threshold c scan_init improvements"
    have ne: "improvements \<noteq> []" using Cons by simp
    have "\<forall>q \<in> set (st_plateaus ?s). c \<le> epochs_in_plateau q"
      by (rule scan_loop_run_length) (simp add: scan_init_def)
    then show ?thesis
      using a unfolding detect_plateaus_nonempty[OF ne] by (auto split: if_splits)
  qed
next
  assume a: "detect_plateaus improvements threshold c use_relative = Inr ps \<and> p \<in> set ps"
    and b: "1 \<le> c \<and> sorted_wrt (<) (map fst improvements)"
  show "\<exists>a. start_epoch p = Some a \<and> a \<le> end_epoch p"
  proof (cases improvements)
    case Nil
    then show ?thesis using a by (auto simp add: detect_plateaus_empty split: if_splits)
  next
    case (Cons x xs)
    let ?s = "scan_loop threshold c scan_init improvements"
    have ne: "improvements \<noteq> []" using Cons by simp
    have c1: "1 \<le> c" using b by simp
    have i0: "scan_inv (fst x - 1) scan_init" by (simp add: scan_inv_def scan_init_def)
    have s0: "sorted_wrt (<) ((fst x - 1) # map fst improvements)"
      using b unfolding Cons by auto
    have inv: "scan_inv (last ((fst x - 1) # map fst improvements)) ?s"
      using i0 s0 by (rule scan_loop_inv[OF c1])
    have la: "last ((fst x - 1) # map fst improvements) = fst (last improvements)"
      using ne by (simp add: last_map)
    have "well_bounded p"
      using a inv c1 unfolding detect_plateaus_nonempty[OF ne] la
      by (auto simp add: scan_inv_def well_bounded_def list_all_iff
               split: if_splits option.splits)
    then show ?thesis by (auto simp add: well_bounded_def split: option.splits)
  qed
qed

text \<open>
  The theorem at the deltas 0, 0, 1 for the epochs 1, 2, 3, with threshold 0.5 and
  \<open>consecutive_epochs = 2\<close>: one descriptor, from 1 to 2, of length 2.
\<close>

theorem detect_plateaus_descriptor_invariant_witness:
  "detect_plateaus [(1, 0), (2, 0), (3, 1)] (1 / 2) 2 False =
     Inr [\<lparr>start_epoch = Some 1, end_epoch = 2, avg_improvement = Num 0,
            epochs_in_plateau = 2\<rparr>]
   \<and> 2 \<le> epochs_in_plateau
            \<lparr>start_epoch = Some 1, end_epoch = 2, avg_improvement = Num 0,
             epochs_in_plateau = 2\<rparr>
   \<and> (\<exists>a. start_epoch
             \<lparr>start_epoch = Some 1, end_epoch = 2, avg_improvement = Num 0,
              epochs_in_plateau = 2\<rparr> = Some a
          \<and> a \<le> end_epoch
                 \<lparr>start_epoch = Some 1, end_epoch = 2, avg_improvement = Num 0,
                  epochs_in_plateau = 2\<rparr>)"
proof -
  let ?p = "\<lparr>start_epoch = Some 1, end_epoch = 2, avg_improvement = Num 0,
             epochs_in_plateau = 2\<rparr>"
  have d: "detect_plateaus [(1, 0), (2, 0), (3, 1)] (1 / 2) 2 False = Inr [?p]"
    by (simp add: detect_plateaus_def scan_step_def scan_init_def np_mean_def)
  have "2 \<le> epochs_in_plateau ?p \<and> (\<exists>a. start_epoch ?p = Some a \<and> a \<le> end_epoch ?p)"
    using d detect_plateaus_descriptor_invariant
      [where improvements = "[(1, 0), (2, 0), (3, 1)]" and threshold = "1 / 2" and c = 2
         and use_relative = False and ps = "[?p]" and p = ?p]
    by simp
  with d show ?thesis by blast
qed

section \<open>The stop suggestion\<close>

lemma first_plateau_after_find:
  "\<forall>p \<in> set ps. start_epoch p \<noteq> None \<Longrightarrow>
   first_plateau_after ps m =
     Inr (case find (\<lambda>p. case start_epoch p of None \<Rightarrow> False | Some a \<Rightarrow> m \<le> a) ps of
            None \<Rightarrow> None | Some p \<Rightarrow> start_epoch p)"
  by (induction ps) (auto split: option.splits)

lemma suggest_stop_epoch_returns:
  "\<forall>p \<in> set ps. start_epoch p \<noteq> None \<Longrightarrow> \<exists>r. suggest_stop_epoch es imps ps m = Inr r"
  using first_plateau_after_find[of ps m] by (simp add: suggest_stop_epoch_def)

text \<open>
  Claim C7. For every list of plateaus that carry a start epoch (the field is declared
  \<^verbatim>\<open>start_epoch: int\<close>) and every \<open>min_epochs\<close>, \<^verbatim>\<open>suggest_stop_epoch\<close> returns the start
  epoch of the first plateau, in list order, whose start epoch is at least \<open>min_epochs\<close>, and
  \<^verbatim>\<open>None\<close> when the list is empty or no plateau qualifies. The default of \<open>min_epochs\<close> is
  50, and with plateaus starting at 20 and 60 the default gives 60.
\<close>

theorem suggest_stop_epoch_first_qualifying:
  assumes "\<forall>p \<in> set ps. start_epoch p \<noteq> None"
  shows "suggest_stop_epoch es imps ps m =
           Inr (case find (\<lambda>p. case start_epoch p of None \<Rightarrow> False | Some a \<Rightarrow> m \<le> a) ps of
                  None \<Rightarrow> None | Some p \<Rightarrow> start_epoch p)
       \<and> ((\<forall>p \<in> set ps. \<forall>a. start_epoch p = Some a \<longrightarrow> a < m) \<longrightarrow>
            suggest_stop_epoch es imps ps m = Inr None)
       \<and> suggest_stop_epoch es imps [] m = Inr None
       \<and> default_min_epochs = 50
       \<and> (start_epoch p1 = Some 20 \<and> start_epoch p2 = Some 60 \<longrightarrow>
            suggest_stop_epoch es imps [p1, p2] default_min_epochs = Inr (Some 60))"
proof (intro conjI impI)
  show f: "suggest_stop_epoch es imps ps m =
           Inr (case find (\<lambda>p. case start_epoch p of None \<Rightarrow> False | Some a \<Rightarrow> m \<le> a) ps of
                  None \<Rightarrow> None | Some p \<Rightarrow> start_epoch p)"
    using first_plateau_after_find[OF assms, of m]
    by (cases ps) (simp_all add: suggest_stop_epoch_def)
  assume "\<forall>p \<in> set ps. \<forall>a. start_epoch p = Some a \<longrightarrow> a < m"
  then have "find (\<lambda>p. case start_epoch p of None \<Rightarrow> False | Some a \<Rightarrow> m \<le> a) ps = None"
    by (auto simp add: find_None_iff split: option.splits)
  then show "suggest_stop_epoch es imps ps m = Inr None" using f by simp
next
  show "suggest_stop_epoch es imps [] m = Inr None" by (simp add: suggest_stop_epoch_def)
next
  show "default_min_epochs = 50" by (simp add: default_min_epochs_def)
next
  assume "start_epoch p1 = Some 20 \<and> start_epoch p2 = Some 60"
  then show "suggest_stop_epoch es imps [p1, p2] default_min_epochs = Inr (Some 60)"
    by (simp add: suggest_stop_epoch_def default_min_epochs_def)
qed

text \<open>
  The theorem at two plateaus, from 20 to 35 and from 60 to 75: with \<open>min_epochs = 50\<close> the
  suggestion is 60, with \<open>min_epochs = 61\<close> there is none.
\<close>

theorem suggest_stop_epoch_first_qualifying_witness:
  "suggest_stop_epoch [] []
     [\<lparr>start_epoch = Some 20, end_epoch = 35, avg_improvement = Num 0, epochs_in_plateau = 16\<rparr>,
      \<lparr>start_epoch = Some 60, end_epoch = 75, avg_improvement = Num 0, epochs_in_plateau = 16\<rparr>]
     50 = Inr (Some 60)
   \<and> suggest_stop_epoch [] []
     [\<lparr>start_epoch = Some 20, end_epoch = 35, avg_improvement = Num 0, epochs_in_plateau = 16\<rparr>,
      \<lparr>start_epoch = Some 60, end_epoch = 75, avg_improvement = Num 0, epochs_in_plateau = 16\<rparr>]
     61 = Inr None"
  using
    suggest_stop_epoch_first_qualifying
      [where es = "[]" and imps = "[]" and m = 50
         and ps = "[\<lparr>start_epoch = Some 20, end_epoch = 35, avg_improvement = Num 0,
                      epochs_in_plateau = 16\<rparr>,
                    \<lparr>start_epoch = Some 60, end_epoch = 75, avg_improvement = Num 0,
                      epochs_in_plateau = 16\<rparr>]"]
    suggest_stop_epoch_first_qualifying
      [where es = "[]" and imps = "[]" and m = 61
         and ps = "[\<lparr>start_epoch = Some 20, end_epoch = 35, avg_improvement = Num 0,
                      epochs_in_plateau = 16\<rparr>,
                    \<lparr>start_epoch = Some 60, end_epoch = 75, avg_improvement = Num 0,
                      epochs_in_plateau = 16\<rparr>]"]
  by simp

section \<open>The improvement sequences\<close>

lemma for_range_append:
  "(\<And>acc i. i \<in> set ns \<Longrightarrow> body acc i = Inr (acc @ f i)) \<Longrightarrow>
   for_range body acc ns = Inr (acc @ concat (map f ns))"
  by (induction ns arbitrary: acc) simp_all

lemma compute_improvements_returns: "\<exists>imps. compute_improvements es m = Inr imps"
  unfolding compute_improvements_def
  by (subst for_range_append[where f = "\<lambda>i. case getattr (es ! (i - 1)) m of
                              None \<Rightarrow> []
                            | Some p \<Rightarrow>
                                (case getattr (es ! i) m of
                                   None \<Rightarrow> []
                                 | Some c \<Rightarrow> [(epoch (es ! i), p - c)])"])
     (auto simp add: improvement_body_def Let_def split: option.splits)

lemma relative_improvement_body_appends:
  "relative_improvement_body es m acc i =
     Inr (acc @ (case getattr (es ! (i - 1)) m of
                   None \<Rightarrow> []
                 | Some p \<Rightarrow>
                     (case getattr (es ! i) m of
                        None \<Rightarrow> []
                      | Some c \<Rightarrow>
                          if p \<noteq> 0 then [(epoch (es ! i), (p - c) / p * 100)] else [])))"
  by (auto simp add: relative_improvement_body_def truediv_def Let_def split: option.splits)

lemma compute_relative_improvements_returns:
  "\<exists>imps. compute_relative_improvements es m = Inr imps"
  unfolding compute_relative_improvements_def
  by (subst for_range_append[OF relative_improvement_body_appends]) simp

text \<open>
  Claim C8. For every record sequence and metric, \<^verbatim>\<open>compute_relative_improvements\<close> returns (it
  never raises, so no division by a zero previous value takes place) and its points are, in
  order of \<open>i\<close> from 1 to the last index, the point
  \<open>(epoch\<^sub>i, (prev - curr) / prev * 100)\<close> for exactly those \<open>i\<close> where the metric is present
  on record \<open>i - 1\<close> and on record \<open>i\<close> and the previous value is not zero; the other pairs
  contribute nothing.
\<close>

theorem compute_relative_improvements_points:
  "compute_relative_improvements es m =
     Inr (concat (map (\<lambda>i. case getattr (es ! (i - 1)) m of
                              None \<Rightarrow> []
                            | Some p \<Rightarrow>
                                (case getattr (es ! i) m of
                                   None \<Rightarrow> []
                                 | Some c \<Rightarrow>
                                     if p \<noteq> 0 then [(epoch (es ! i), (p - c) / p * 100)]
                                     else []))
                      [1..<length es]))"
  unfolding compute_relative_improvements_def
  by (subst for_range_append[OF relative_improvement_body_appends]) simp

text \<open>
  The theorem at six records with the values 4, 0, 2, none, 1, 1 for the epochs 1 to 6: the
  pairs with a zero previous value (0, 2) and with a missing value give no point.
\<close>

theorem compute_relative_improvements_points_witness:
  "compute_relative_improvements
     [(EpochMetrics_init 1)\<lparr>valid_generator_loss := Some 4\<rparr>,
      (EpochMetrics_init 2)\<lparr>valid_generator_loss := Some 0\<rparr>,
      (EpochMetrics_init 3)\<lparr>valid_generator_loss := Some 2\<rparr>,
      EpochMetrics_init 4,
      (EpochMetrics_init 5)\<lparr>valid_generator_loss := Some 1\<rparr>,
      (EpochMetrics_init 6)\<lparr>valid_generator_loss := Some 1\<rparr>] Valid_generator_loss =
   Inr [(2, 100), (6, 0)]"
  using compute_relative_improvements_points
    [where m = Valid_generator_loss
       and es = "[(EpochMetrics_init 1)\<lparr>valid_generator_loss := Some 4\<rparr>,
                  (EpochMetrics_init 2)\<lparr>valid_generator_loss := Some 0\<rparr>,
                  (EpochMetrics_init 3)\<lparr>valid_generator_loss := Some 2\<rparr>,
                  EpochMetrics_init 4,
                  (EpochMetrics_init 5)\<lparr>valid_generator_loss := Some 1\<rparr>,
                  (EpochMetrics_init 6)\<lparr>valid_generator_loss := Some 1\<rparr>]"]
  by (simp add: EpochMetrics_init_def upt_rec)

section \<open>The analysis as a whole\<close>

lemma scan_step_start_known:
  "1 \<le> c \<Longrightarrow> start_known s \<Longrightarrow> start_known (scan_step t c s x)"
  by (auto simp add: start_known_def scan_step_def Let_def split: option.splits)

lemma scan_loop_start_known:
  "1 \<le> c \<Longrightarrow> start_known s \<Longrightarrow> start_known (scan_loop t c s xs)"
  by (induction xs arbitrary: s) (simp_all add: scan_step_start_known)

lemma detect_plateaus_start_known:
  assumes "1 \<le> c" and "detect_plateaus xs t c r = Inr ps"
  shows "\<forall>p \<in> set ps. start_epoch p \<noteq> None"
proof (cases xs)
  case Nil
  then show ?thesis using assms by (simp add: detect_plateaus_empty)
next
  case (Cons y ys)
  let ?s = "scan_loop t c scan_init xs"
  have ne: "xs \<noteq> []" using Cons by simp
  have "start_known scan_init" by (simp add: start_known_def scan_init_def)
  then have k: "start_known ?s" by (rule scan_loop_start_known[OF assms(1)])
  show ?thesis
    using assms k unfolding detect_plateaus_nonempty[OF ne]
    by (auto simp add: start_known_def list_all_iff split: if_splits option.splits)
qed

lemma calc_total_improvement_value:
  "calc_total_improvement es m =
     Inr (if es \<noteq> [] \<and> truthy (getattr (hd es) m) \<and> truthy (getattr (last es) m)
          then (the (getattr (hd es) m) - the (getattr (last es) m)) / the (getattr (hd es) m)
               * 100
          else 0)"
  by (cases es; cases "getattr (hd es) m"; cases "getattr (last es) m")
     (auto simp add: calc_total_improvement_def truediv_def Let_def)

lemma analyze_training_returns:
  assumes "1 \<le> c"
  shows "\<exists>res. analyze_training es m t c r = Inr res"
proof -
  obtain imps where i: "(if r then compute_relative_improvements es m
            else compute_improvements es m) = Inr imps"
    using compute_relative_improvements_returns[of es m] compute_improvements_returns[of es m]
    by (cases r) auto
  obtain ps where p: "detect_plateaus imps t c r = Inr ps"
    using detect_plateaus_returns[of c imps t r] assms by auto
  obtain st where s: "suggest_stop_epoch es imps ps default_min_epochs = Inr st"
    using suggest_stop_epoch_returns[OF detect_plateaus_start_known[OF assms p]] by blast
  show ?thesis
    unfolding analyze_training_def i by (simp add: p s calc_total_improvement_value)
qed

lemma analyze_training_total:
  assumes "analyze_training es m t c r = Inr res"
  shows "Inr (total_improvement res) = calc_total_improvement es m"
  using assms by (auto simp add: analyze_training_def split: sum.splits)

text \<open>
  Where the total improvement follows the formula. \<^verbatim>\<open>analyze_training\<close> returns a result
  whenever \<open>consecutive_epochs \<ge> 1\<close>, and in every result it returns the total improvement is
  \<^item> 0.0 when the record list is empty,
  \<^item> 0.0 when the first or the last record has no value for the metric,
  \<^item> 0.0 when the first value is 0.0 (the guard keeps the division from a zero divisor),
  \<^item> \<open>(first - last) / first * 100\<close> when both values are present and both are not zero.
\<close>

lemma analyze_training_total_cases:
  "(1 \<le> c \<longrightarrow> (\<exists>res'. analyze_training es m t c r = Inr res'))
   \<and> (analyze_training es m t c r = Inr res \<longrightarrow>
        (es = [] \<longrightarrow> total_improvement res = 0)
      \<and> (es \<noteq> [] \<and> (getattr (hd es) m = None \<or> getattr (last es) m = None) \<longrightarrow>
           total_improvement res = 0)
      \<and> (es \<noteq> [] \<and> getattr (hd es) m = Some 0 \<longrightarrow> total_improvement res = 0)
      \<and> (\<forall>f l. es \<noteq> [] \<and> getattr (hd es) m = Some f \<and> getattr (last es) m = Some l
               \<and> f \<noteq> 0 \<and> l \<noteq> 0 \<longrightarrow> total_improvement res = (f - l) / f * 100))"
proof (intro conjI impI allI)
  assume "1 \<le> c"
  then show "\<exists>res'. analyze_training es m t c r = Inr res'" by (rule analyze_training_returns)
next
  assume a: "analyze_training es m t c r = Inr res"
  note v = analyze_training_total[OF a, unfolded calc_total_improvement_value]
  { assume "es = []"
    then show "total_improvement res = 0" using v by simp }
  { assume "es \<noteq> [] \<and> (getattr (hd es) m = None \<or> getattr (last es) m = None)"
    then show "total_improvement res = 0" using v by auto }
  { assume "es \<noteq> [] \<and> getattr (hd es) m = Some 0"
    then show "total_improvement res = 0" using v by simp }
  { fix f l
    assume "es \<noteq> [] \<and> getattr (hd es) m = Some f \<and> getattr (last es) m = Some l
               \<and> f \<noteq> 0 \<and> l \<noteq> 0"
    then show "total_improvement res = (f - l) / f * 100" using v by simp }
qed

text \<open>
  At two records with the values 4.0 and 3.0 the analysis returns and the total improvement
  is 25.
\<close>

lemma analyze_training_total_example:
  "\<exists>res. analyze_training
            [(EpochMetrics_init 1)\<lparr>valid_generator_loss := Some 4\<rparr>,
             (EpochMetrics_init 2)\<lparr>valid_generator_loss := Some 3\<rparr>]
            Valid_generator_loss (1 / 10) 10 True = Inr res
         \<and> total_improvement res = 25"
proof -
  let ?es = "[(EpochMetrics_init 1)\<lparr>valid_generator_loss := Some 4\<rparr>,
              (EpochMetrics_init 2)\<lparr>valid_generator_loss := Some 3\<rparr>]"
  note th = analyze_training_total_cases
    [where es = ?es and m = Valid_generator_loss and t = "1 / 10" and c = 10 and r = True]
  obtain res where r: "analyze_training ?es Valid_generator_loss (1 / 10) 10 True = Inr res"
    using th by auto
  have "total_improvement res = (4 - 3) / 4 * 100"
    using th[where res = res] r by (simp add: EpochMetrics_init_def)
  then have "total_improvement res = 25" by simp
  with r show ?thesis by blast
qed

text \<open>
  Claim C1 says that the total improvement is \<open>(first - last) / first * 100\<close> whenever the
  first and the last record both have a value for the metric, and 0.0 only when a value is
  absent or the list is empty. The code tests \<^verbatim>\<open>if first_val and last_val\<close>, the truth value
  of the two numbers, so a last value of 0.0, though present, is taken as missing: for two
  records with the values 2.0 and 0.0 the analysis stores a total improvement of 0.0, where the
  formula gives 100. In the same result the recent improvement rate is 100:
  \<^verbatim>\<open>compute_relative_improvements\<close>, which tests \<^verbatim>\<open>is not None\<close>, computes the formula for the
  same pair of values.
\<close>

theorem analyze_training_total_improvement_zero_last:
  "analyze_training
     [(EpochMetrics_init 1)\<lparr>valid_generator_loss := Some 2\<rparr>,
      (EpochMetrics_init 2)\<lparr>valid_generator_loss := Some 0\<rparr>]
     Valid_generator_loss (1 / 10) 10 True =
   Inr \<lparr>epochs = [(EpochMetrics_init 1)\<lparr>valid_generator_loss := Some 2\<rparr>,
                  (EpochMetrics_init 2)\<lparr>valid_generator_loss := Some 0\<rparr>],
        plateaus = [], suggested_stop_epoch = None, total_improvement = 0,
        recent_improvement_rate = Num 100\<rparr>
   \<and> ((2 :: real) - 0) / 2 * 100 = 100"
  by (simp add: analyze_training_def compute_relative_improvements_def
      relative_improvement_body_def truediv_def detect_plateaus_def scan_step_def scan_init_def
      suggest_stop_epoch_def calc_total_improvement_def calc_recent_improvement_rate_def
      np_mean_def EpochMetrics_init_def upt_rec)

section \<open>The parser\<close>

subsection \<open>Durations\<close>

lemmas time_eval =
  parse_time_string_def match_quantity_def is_digit_def is_space_def is_seconds_char_def
  py_float_def int_of_digits_def

lemma parse_time_string_examples:
  "parse_time_string ''1 hour and 2 minutes and 3.5 seconds'' = Inr 3723.5"
  "parse_time_string [] = Inr 0"
  "parse_time_string ''5 seconds'' = Inr 5"
  by (simp_all add: time_eval)

lemma parse_time_string_no_seconds:
  "re_search (match_quantity is_seconds_char ''second'') time_str = None \<Longrightarrow>
   \<exists>v. parse_time_string time_str = Inr v"
  by (simp add: parse_time_string_def Let_def)

text \<open>
  Claim C2 says that \<^verbatim>\<open>parse_time_string\<close> returns a total for every input string and never
  fails. The seconds pattern \<^verbatim>\<open>([\d.]+)\s*seconds?\<close> captures any run of digits and points, and
  the call \<^verbatim>\<open>float(seconds_match.group(1))\<close> is not guarded (the \<^verbatim>\<open>try\<close> of
  \<^verbatim>\<open>extract_metric\<close> is missing here): on \<^verbatim>\<open>1.2.3 seconds\<close> the group is \<^verbatim>\<open>1.2.3\<close> and
  \<^verbatim>\<open>float\<close> raises \<^verbatim>\<open>ValueError\<close>.
\<close>

theorem parse_time_string_two_points:
  "parse_time_string ''1.2.3 seconds'' = Inl ValueError"
  by (simp add: time_eval)

subsection \<open>Sections of an epoch line\<close>

lemma str_index_None_iff: "str_index sub s = None \<longleftrightarrow> \<not> sublist sub s"
  by (induction s) (auto simp add: sublist_Cons_right)

lemma split_sections_no_train:
  "\<not> sublist ''[train]'' line \<Longrightarrow> split_sections line = ([], [])"
  using str_index_None_iff[of "''[train]''" line] by (simp add: split_sections_def)


lemma extract_metric_empty: "extract_metric [] metric_name = None"
  by (simp add: extract_metric_def match_metric_def)

lemma match_time_empty: "match_time [] = None"
  by (simp add: match_time_def)



lemmas line_eval =
  parse_line_def split_sections_def match_epoch_def match_time_def match_metric_def
  extract_metric_def is_digit_def is_space_def is_word_def is_time_char_def is_metric_char_def
  is_seconds_char_def py_float_def int_of_digits_def at_boundary_def parse_time_string_def
  match_quantity_def sublist_Cons_right

text \<open>The examples of \<^verbatim>\<open>extract_metric\<close> and the example line of the log format.\<close>

lemma extract_metric_examples:
  "extract_metric ''generator_loss=2.531, x=y'' ''generator_loss'' = Some 2.531"
  "extract_metric ''nope=1'' ''generator_loss'' = None"
  by (simp_all add: line_eval)

lemma parse_line_example:
  "parse_line
     (''3epoch results: [train] generator_loss=2.531, generator_mel_loss=1.002, '' @
      ''discriminator_loss=0.812, time=2 minutes and 14.30 seconds, '' @
      ''[valid] generator_loss=2.488, generator_mel_loss=0.981, discriminator_loss=0.799'') =
   Inr (Some ((EpochMetrics_init 3)
     \<lparr>train_generator_loss := Some 2.531, train_mel_loss := Some 1.002,
      train_discriminator_loss := Some 0.812, valid_generator_loss := Some 2.488,
      valid_mel_loss := Some 0.981, valid_discriminator_loss := Some 0.799,
      train_time_seconds := Some 134.3\<rparr>))"
  by (simp add: line_eval EpochMetrics_init_def)

text \<open>
  Claim C9. For every line that carries the epoch marker \<^verbatim>\<open><digits>epoch results:\<close> and does
  not contain \<^verbatim>\<open>[train]\<close>, both segments are empty and the record of the line has its epoch
  and no other field set (the fourteen metric fields and the elapsed time are absent), whatever
  else the line contains, a \<^verbatim>\<open>[valid]\<close> section included.
\<close>

theorem parse_line_without_train_marker:
  assumes "re_search match_epoch line = Some g" and "\<not> sublist ''[train]'' line"
  shows "split_sections line = ([], [])
       \<and> parse_line line = Inr (Some (EpochMetrics_init (int (int_of_digits g))))
       \<and> parse_log_file [line] = Inr [EpochMetrics_init (int (int_of_digits g))]"
proof -
  have s: "split_sections line = ([], [])" using assms(2) by (rule split_sections_no_train)
  have p: "parse_line line = Inr (Some (EpochMetrics_init (int (int_of_digits g))))"
    by (simp add: parse_line_def assms(1) s extract_metric_empty match_time_empty
        EpochMetrics_init_def Let_def)
  have "parse_log_file [line] = Inr [EpochMetrics_init (int (int_of_digits g))]"
    by (simp add: parse_log_file_def p)
  with s p show ?thesis by simp
qed

text \<open>The theorem at a line of epoch 3 with a \<^verbatim>\<open>[valid]\<close> section only.\<close>

theorem parse_line_without_train_marker_witness:
  "parse_line ''3epoch results: [valid] generator_loss=2.488'' = Inr (Some (EpochMetrics_init 3))
   \<and> parse_log_file [''3epoch results: [valid] generator_loss=2.488''] =
       Inr [EpochMetrics_init 3]"
proof -
  have e: "re_search match_epoch ''3epoch results: [valid] generator_loss=2.488'' = Some ''3''"
    by (simp add: match_epoch_def is_digit_def)
  have n: "\<not> sublist ''[train]'' ''3epoch results: [valid] generator_loss=2.488''"
    by (simp add: sublist_Cons_right)
  show ?thesis
    using parse_line_without_train_marker[OF e n] by (simp add: int_of_digits_def)
qed

subsection \<open>The elapsed time\<close>





end
